theory Spec2Isabelle
  imports Complex_Main "HOL-Library.AList" "HOL-Library.Multiset"
    "HOL-Library.Product_Lexorder" "HOL-Library.Monad_Syntax"
begin

section \<open>Python text primitives used by gpu_top.py\<close>

text \<open>
  A Python \<open>str\<close> is modelled as a \<open>string\<close>: one \<open>char\<close> per code point, for the
  code points 0 to 255. Text with higher code points is outside the model. The
  classifications below are those of CPython on this range.
\<close>

type_synonym bytes = "char list"

definition ord :: "char \<Rightarrow> nat" where
  "ord c = of_char c"

definition isspace :: "char \<Rightarrow> bool" where
  \<comment> \<open>\<open>str.isspace\<close>: the characters removed by \<open>str.strip()\<close> and separating \<open>str.split()\<close>\<close>
  "isspace c \<longleftrightarrow> (let n = ord c in
     (9 \<le> n \<and> n \<le> 13) \<or> (28 \<le> n \<and> n \<le> 32) \<or> n = 133 \<or> n = 160)"

definition is_linebreak :: "char \<Rightarrow> bool" where
  \<comment> \<open>the line boundaries of \<open>str.splitlines()\<close>\<close>
  "is_linebreak c \<longleftrightarrow> (let n = ord c in
     (10 \<le> n \<and> n \<le> 13) \<or> (28 \<le> n \<and> n \<le> 30) \<or> n = 133)"

definition strip :: "string \<Rightarrow> string" where
  "strip s = rev (dropWhile isspace (rev (dropWhile isspace s)))"

definition startswith :: "string \<Rightarrow> string \<Rightarrow> bool" where
  "startswith s p \<longleftrightarrow> take (length p) s = p"

fun splitlines_from :: "string \<Rightarrow> string \<Rightarrow> string list" where
  \<comment> \<open>\<open>cur\<close> is the line read so far; CR LF is one boundary; no empty last line\<close>
  "splitlines_from cur [] = (if cur = [] then [] else [cur])"
| "splitlines_from cur (c # cs) =
     (if c = CHR 0x0D then
        (case cs of
           d # ds \<Rightarrow> if d = CHR 0x0A then cur # splitlines_from [] ds
                     else cur # splitlines_from [] cs
         | [] \<Rightarrow> cur # splitlines_from [] cs)
      else if is_linebreak c then cur # splitlines_from [] cs
      else splitlines_from (cur @ [c]) cs)"

definition splitlines :: "string \<Rightarrow> string list" where
  "splitlines s = splitlines_from [] s"

fun split_sep_from :: "char \<Rightarrow> string \<Rightarrow> string \<Rightarrow> string list" where
  "split_sep_from sep cur [] = [cur]"
| "split_sep_from sep cur (c # cs) =
     (if c = sep then cur # split_sep_from sep [] cs
      else split_sep_from sep (cur @ [c]) cs)"

definition split_sep :: "char \<Rightarrow> string \<Rightarrow> string list" where
  \<comment> \<open>\<open>s.split(sep)\<close> for a one-character separator\<close>
  "split_sep sep s = split_sep_from sep [] s"

fun split_ws_from :: "string \<Rightarrow> string \<Rightarrow> string list" where
  "split_ws_from cur [] = (if cur = [] then [] else [cur])"
| "split_ws_from cur (c # cs) =
     (if isspace c then (if cur = [] then split_ws_from [] cs else cur # split_ws_from [] cs)
      else split_ws_from (cur @ [c]) cs)"

definition split_ws :: "string \<Rightarrow> string list" where
  \<comment> \<open>\<open>s.split()\<close>: runs of whitespace separate, no empty fields\<close>
  "split_ws s = split_ws_from [] s"

fun join :: "string \<Rightarrow> string list \<Rightarrow> string" where
  "join sep [] = []"
| "join sep [x] = x"
| "join sep (x # y # ys) = x @ sep @ join sep (y # ys)"

definition basename :: "string \<Rightarrow> string" where
  \<comment> \<open>\<open>os.path.basename\<close> (posixpath): what follows the last slash\<close>
  "basename p = rev (takeWhile (\<lambda>c. c \<noteq> CHR ''/'') (rev p))"

subsection \<open>The builtin int()\<close>

definition is_digit :: "char \<Rightarrow> bool" where
  "is_digit c \<longleftrightarrow> 48 \<le> ord c \<and> ord c \<le> 57"

definition int_space :: "char \<Rightarrow> bool" where
  \<comment> \<open>the whitespace that \<open>int()\<close> accepts around a literal\<close>
  "int_space c \<longleftrightarrow> (let n = ord c in (9 \<le> n \<and> n \<le> 13) \<or> n = 32 \<or> n = 133 \<or> n = 160)"

definition int_max_str_digits :: nat where
  \<comment> \<open>CPython's default limit on the digits of a decimal literal (3.11 and later)\<close>
  "int_max_str_digits = 4300"

fun int_digits :: "int \<Rightarrow> bool \<Rightarrow> string \<Rightarrow> int option" where
  \<comment> \<open>digits with single underscores between them; the flag says the last character
      read was a digit\<close>
  "int_digits acc after_digit [] = (if after_digit then Some acc else None)"
| "int_digits acc after_digit (c # cs) =
     (if is_digit c then int_digits (10 * acc + int (ord c - 48)) True cs
      else if c = CHR ''_'' \<and> after_digit then int_digits acc False cs
      else None)"

definition int_unsigned :: "string \<Rightarrow> int option" where
  "int_unsigned s =
     (if length (filter is_digit s) > int_max_str_digits then None else int_digits 0 False s)"

definition py_int :: "string \<Rightarrow> int option" where
  \<comment> \<open>\<open>int(s)\<close> in base 10; \<open>None\<close> is ValueError\<close>
  "py_int s =
     (let t = rev (dropWhile int_space (rev (dropWhile int_space s))) in
      case t of
        [] \<Rightarrow> None
      | c # cs \<Rightarrow>
          if c = CHR ''+'' then int_unsigned cs
          else if c = CHR ''-'' then map_option uminus (int_unsigned cs)
          else int_unsigned t)"

section \<open>Exceptions and the process executor\<close>

datatype exn = ValueError string | Uncaught string

datatype proc_outcome =
    Returned bytes
  | CalledProcessError bytes
  | FileNotFoundError
  | Raised string

type_synonym os = "string list \<Rightarrow> proc_outcome"

text \<open>
  \<open>os\<close> is what \<open>subprocess.check_output(argv, stderr=STDOUT)\<close> does for an argument
  vector: it returns the merged output, raises CalledProcessError carrying the output,
  raises FileNotFoundError, or raises another exception (named by its class).
  Two library functions are parameters: the UTF-8 decoder with \<open>errors='ignore'\<close>, which
  is total, and the builtin \<open>float()\<close>, whose \<open>None\<close> is ValueError.
\<close>

record 'f lib =
  decode_ignore :: "bytes \<Rightarrow> string"
  py_float :: "string \<Rightarrow> 'f option"

subsection \<open>shlex.split (POSIX mode, \<open>whitespace_split\<close>, no commenters)\<close>

datatype lex_state = InBlank | InWord | InQuote char | InEscape char

definition shlex_whitespace :: string where
  "shlex_whitespace = [CHR '' '', CHR 0x09, CHR 0x0D, CHR 0x0A]"

definition shlex_escape :: string where
  "shlex_escape = [CHR 0x5C]"

definition shlex_quotes :: string where
  "shlex_quotes = [CHR 0x27, CHR 0x22]"

definition shlex_escapedquotes :: string where
  "shlex_escapedquotes = [CHR 0x22]"

definition emit :: "string \<Rightarrow> exn + string list \<Rightarrow> exn + string list" where
  "emit tok rest = (case rest of Inl e \<Rightarrow> Inl e | Inr toks \<Rightarrow> Inr (tok # toks))"

fun read_tokens :: "lex_state \<Rightarrow> string \<Rightarrow> bool \<Rightarrow> lex_state \<Rightarrow> string \<Rightarrow> exn + string list" where
  \<comment> \<open>\<open>shlex.read_token\<close> iterated to the end of the input, with the lexer's
      \<open>state\<close>, \<open>token\<close>, \<open>quoted\<close> and \<open>escapedstate\<close>. In the blank state the branches
      for word characters and for \<open>whitespace_split\<close> do the same and are one branch.\<close>
  "read_tokens st tok quoted esc [] =
     (case st of
        InQuote q \<Rightarrow> Inl (ValueError ''No closing quotation'')
      | InEscape e \<Rightarrow> Inl (ValueError ''No escaped character'')
      | _ \<Rightarrow> Inr (if tok \<noteq> [] \<or> quoted then [tok] else []))"
| "read_tokens st tok quoted esc (c # cs) =
     (case st of
        InBlank \<Rightarrow>
          if c \<in> set shlex_whitespace then
            (if tok \<noteq> [] \<or> quoted then emit tok (read_tokens InBlank [] False InBlank cs)
             else read_tokens InBlank tok quoted esc cs)
          else if c \<in> set shlex_escape then read_tokens (InEscape c) tok quoted InWord cs
          else if c \<in> set shlex_quotes then read_tokens (InQuote c) tok quoted esc cs
          else read_tokens InWord [c] quoted esc cs
      | InQuote q \<Rightarrow>
          if c = q then read_tokens InWord tok True esc cs
          else if c \<in> set shlex_escape \<and> q \<in> set shlex_escapedquotes
            then read_tokens (InEscape c) tok True (InQuote q) cs
          else read_tokens (InQuote q) (tok @ [c]) True esc cs
      | InEscape e \<Rightarrow>
          (let tok' = (case esc of
                         InQuote q \<Rightarrow> if c \<noteq> e \<and> c \<noteq> q then tok @ [e] else tok
                       | _ \<Rightarrow> tok)
           in read_tokens esc (tok' @ [c]) quoted esc cs)
      | InWord \<Rightarrow>
          if c \<in> set shlex_whitespace then
            (if tok \<noteq> [] \<or> quoted then emit tok (read_tokens InBlank [] False InBlank cs)
             else read_tokens InBlank tok quoted esc cs)
          else if c \<in> set shlex_quotes then read_tokens (InQuote c) tok quoted esc cs
          else if c \<in> set shlex_escape then read_tokens (InEscape c) tok quoted InWord cs
          else read_tokens InWord (tok @ [c]) quoted esc cs)"

definition shlex_split :: "string \<Rightarrow> exn + string list" where
  "shlex_split s = read_tokens InBlank [] False InBlank s"

subsection \<open>run_cmd (gpu_top.py, lines 12 to 19)\<close>

text \<open>
  The argument of \<open>check_output\<close> is evaluated inside the \<open>try\<close>, and neither
  \<open>except\<close> clause catches the ValueError of \<open>shlex.split\<close>.
\<close>

definition run_cmd :: "'f lib \<Rightarrow> os \<Rightarrow> string \<Rightarrow> exn + string" where
  "run_cmd L os cmd =
     (case shlex_split cmd of
        Inl e \<Rightarrow> Inl e
      | Inr argv \<Rightarrow>
          (case os argv of
             Returned out \<Rightarrow> Inr (decode_ignore L out)
           | CalledProcessError out \<Rightarrow> Inr (decode_ignore L out)
           | FileNotFoundError \<Rightarrow> Inr []
           | Raised x \<Rightarrow> Inl (Uncaught x)))"

section \<open>Readers\<close>

text \<open>
  The spec's names for the functions below: \<open>run\<close> is \<open>run_cmd\<close>, \<open>parseRows\<close> is
  \<open>parse_csv\<close>, \<open>readDevices\<close> is \<open>get_gpu_stats\<close>, \<open>readProcesses\<close> is
  \<open>get_compute_processes\<close>, \<open>sampleUtilization\<close> is \<open>get_pmon_once\<close> and
  \<open>buildSnapshot\<close> is \<open>snapshot\<close>. A loop that appends to a list is a recursive
  function returning the list; a \<open>try\<close> whose handler is \<open>continue\<close> is an \<open>option\<close>.
\<close>

subsection \<open>parse_csv (lines 26 to 33)\<close>

fun parse_csv_loop :: "string list \<Rightarrow> string list list" where
  "parse_csv_loop [] = []"
| "parse_csv_loop (line # lines) =
     (if strip line = [] then parse_csv_loop lines
      else map strip (split_sep CHR '','' line) # parse_csv_loop lines)"

definition parse_csv :: "string \<Rightarrow> string list list" where
  "parse_csv text = parse_csv_loop (splitlines (strip text))"

definition item :: "'a list \<Rightarrow> nat \<Rightarrow> 'a option" where
  \<comment> \<open>\<open>r[i]\<close> for a constant index; \<open>None\<close> is IndexError\<close>
  "item r i = (if i < length r then Some (r ! i) else None)"

definition unless_na :: "(string \<Rightarrow> 'a option) \<Rightarrow> string \<Rightarrow> 'a option option" where
  \<comment> \<open>\<open>conv(x) if x != 'N/A' else None\<close>; the outer \<open>None\<close> is the exception of \<open>conv\<close>\<close>
  "unless_na conv x = (if x \<noteq> ''N/A'' then map_option Some (conv x) else Some None)"

definition unless_dash :: "string \<Rightarrow> int option option" where
  \<comment> \<open>\<open>int(x) if x != '-' else None\<close>\<close>
  "unless_dash x = (if x \<noteq> ''-'' then map_option Some (py_int x) else Some None)"

subsection \<open>get_gpu_stats (lines 36 to 65)\<close>

record 'f gpu =
  g_uuid :: string
  g_index :: int
  g_name :: string
  g_temp :: int
  g_util :: int
  g_mem_used :: int
  g_mem_total :: int
  g_pwr :: "'f option"
  g_pwr_lim :: "'f option"
  g_sm_clock :: "int option"
  g_fan :: "int option"

definition gpu_fields :: "string list" where
  "gpu_fields = [''uuid'', ''index'', ''name'', ''temperature.gpu'', ''utilization.gpu'',
     ''memory.used'', ''memory.total'', ''power.draw'', ''power.limit'',
     ''clocks.sm'', ''fan.speed'']"

definition gpu_cmd :: string where
  "gpu_cmd = ''nvidia-smi --query-gpu='' @ join '','' gpu_fields
     @ '' --format=csv,noheader,nounits''"

definition gpu_of_row :: "'f lib \<Rightarrow> string list \<Rightarrow> 'f gpu option" where
  \<comment> \<open>the body of the \<open>try\<close>: \<open>None\<close> is any exception, all caught alike\<close>
  "gpu_of_row L r = do {
     r0 \<leftarrow> item r 0;
     r1 \<leftarrow> item r 1; idx \<leftarrow> py_int r1;
     r2 \<leftarrow> item r 2;
     r3 \<leftarrow> item r 3; temp \<leftarrow> py_int r3;
     r4 \<leftarrow> item r 4; util \<leftarrow> py_int r4;
     r5 \<leftarrow> item r 5; mem_used \<leftarrow> py_int r5;
     r6 \<leftarrow> item r 6; mem_total \<leftarrow> py_int r6;
     r7 \<leftarrow> item r 7; pwr \<leftarrow> unless_na (py_float L) r7;
     r8 \<leftarrow> item r 8; pwr_lim \<leftarrow> unless_na (py_float L) r8;
     r9 \<leftarrow> item r 9; sm_clock \<leftarrow> unless_na py_int r9;
     fan \<leftarrow> (if length r > 10 \<and> r ! 10 \<noteq> ''N/A''
              then map_option Some (py_int (r ! 10)) else Some None);
     Some \<lparr>g_uuid = r0, g_index = idx, g_name = r2, g_temp = temp, g_util = util,
           g_mem_used = mem_used, g_mem_total = mem_total, g_pwr = pwr,
           g_pwr_lim = pwr_lim, g_sm_clock = sm_clock, g_fan = fan\<rparr>
   }"

fun gpu_stats_loop :: "'f lib \<Rightarrow> string list list \<Rightarrow> 'f gpu list" where
  "gpu_stats_loop L [] = []"
| "gpu_stats_loop L (r # rows) =
     (case gpu_of_row L r of
        Some g \<Rightarrow> g # gpu_stats_loop L rows
      | None \<Rightarrow> gpu_stats_loop L rows)"

definition get_gpu_stats :: "'f lib \<Rightarrow> os \<Rightarrow> exn + 'f gpu list" where
  "get_gpu_stats L os =
     (case run_cmd L os gpu_cmd of
        Inl e \<Rightarrow> Inl e
      | Inr out \<Rightarrow> Inr (gpu_stats_loop L (parse_csv out)))"

subsection \<open>get_compute_processes (lines 68 to 88)\<close>

record proc =
  p_pid :: int
  p_name :: string
  p_mem :: int
  p_uuid :: string
  p_sm :: "int option"
  p_mem_util :: "int option"

definition proc_fields :: "string list" where
  "proc_fields = [''pid'', ''process_name'', ''used_memory'', ''gpu_uuid'']"

definition proc_cmd :: string where
  "proc_cmd = ''nvidia-smi --query-compute-apps='' @ join '','' proc_fields
     @ '' --format=csv,noheader,nounits''"

definition proc_of_row :: "string list \<Rightarrow> proc option" where
  "proc_of_row r = do {
     r0 \<leftarrow> item r 0; pid \<leftarrow> py_int r0;
     r1 \<leftarrow> item r 1;
     r2 \<leftarrow> item r 2; mem \<leftarrow> (if r2 \<noteq> ''N/A'' then py_int r2 else Some 0);
     r3 \<leftarrow> item r 3;
     Some \<lparr>p_pid = pid, p_name = (if r1 \<noteq> [] then basename r1 else ''-''),
           p_mem = mem, p_uuid = r3, p_sm = None, p_mem_util = None\<rparr>
   }"

fun procs_loop :: "string list list \<Rightarrow> proc list" where
  "procs_loop [] = []"
| "procs_loop (r # rows) =
     (case proc_of_row r of
        Some p \<Rightarrow> p # procs_loop rows
      | None \<Rightarrow> procs_loop rows)"

definition get_compute_processes :: "'f lib \<Rightarrow> os \<Rightarrow> exn + proc list" where
  "get_compute_processes L os =
     (case run_cmd L os proc_cmd of
        Inl e \<Rightarrow> Inl e
      | Inr out \<Rightarrow> Inr (procs_loop (parse_csv out)))"

subsection \<open>get_pmon_once (lines 91 to 113)\<close>

record pmon =
  e_gpu :: int
  e_pid :: "int option"
  e_sm :: "int option"
  e_mem :: "int option"
  e_cmd :: string

definition pmon_cmd :: string where
  "pmon_cmd = ''nvidia-smi pmon -c 1 -s um''"

definition pmon_of_parts :: "string list \<Rightarrow> pmon option" where
  "pmon_of_parts parts = do {
     p0 \<leftarrow> item parts 0; gpu_idx \<leftarrow> py_int p0;
     p1 \<leftarrow> item parts 1; pid \<leftarrow> unless_dash p1;
     p3 \<leftarrow> item parts 3; sm \<leftarrow> unless_dash p3;
     p4 \<leftarrow> item parts 4; mem \<leftarrow> unless_dash p4;
     Some \<lparr>e_gpu = gpu_idx, e_pid = pid, e_sm = sm, e_mem = mem,
           e_cmd = (if length parts \<ge> 9 then parts ! 8 else [])\<rparr>
   }"

fun pmon_loop :: "string list \<Rightarrow> pmon list" where
  "pmon_loop [] = []"
| "pmon_loop (line # lines) =
     (let line' = strip line in
      if line' = [] \<or> startswith line' ''#'' then pmon_loop lines
      else let parts = split_ws line' in
        if length parts < 9 then pmon_loop lines
        else (case pmon_of_parts parts of
                Some e \<Rightarrow> e # pmon_loop lines
              | None \<Rightarrow> pmon_loop lines))"

definition get_pmon_once :: "'f lib \<Rightarrow> os \<Rightarrow> exn + pmon list" where
  "get_pmon_once L os =
     (case run_cmd L os pmon_cmd of
        Inl e \<Rightarrow> Inl e
      | Inr out \<Rightarrow> Inr (pmon_loop (splitlines out)))"

section \<open>Reconciliation\<close>

subsection \<open>enrich_procs_with_pmon (lines 116 to 124)\<close>

text \<open>
  A key of the dict \<open>ix\<close> is a pair of a device index and a pid, each an integer or
  \<open>None\<close>. The process dicts are updated in place before any of them is grouped, so
  the update is a map over the list.
\<close>

type_synonym join_key = "int option \<times> int option"

definition pmon_key :: "pmon \<Rightarrow> join_key" where
  \<comment> \<open>\<open>(e['gpu'], e['pid'])\<close>\<close>
  "pmon_key e = (Some (e_gpu e), e_pid e)"

definition pmon_index :: "pmon list \<Rightarrow> (join_key \<rightharpoonup> pmon)" where
  \<comment> \<open>the dict comprehension \<open>ix\<close>: a later entry replaces an earlier one\<close>
  "pmon_index pmon =
     fold (\<lambda>e ix. ix(pmon_key e \<mapsto> e)) (filter (\<lambda>e. e_pid e \<noteq> None) pmon) Map.empty"

definition enrich_proc :: "(join_key \<rightharpoonup> pmon) \<Rightarrow> (string \<rightharpoonup> int) \<Rightarrow> proc \<Rightarrow> proc" where
  "enrich_proc ix uuid_to_index p =
     (let gpu_idx = uuid_to_index (p_uuid p);
          key = (gpu_idx, Some (p_pid p))
      in case ix key of
           Some e \<Rightarrow> p\<lparr>p_sm := e_sm e, p_mem_util := e_mem e\<rparr>
         | None \<Rightarrow> p)"

definition enrich_procs_with_pmon ::
  "proc list \<Rightarrow> pmon list \<Rightarrow> (string \<rightharpoonup> int) \<Rightarrow> proc list" where
  "enrich_procs_with_pmon procs pmon uuid_to_index =
     (let ix = pmon_index pmon in map (enrich_proc ix uuid_to_index) procs)"

subsection \<open>snapshot (lines 139 to 156)\<close>

text \<open>
  \<open>per_gpu\<close> is a dict in insertion order: an association list with distinct keys,
  where storing under a present key keeps the key's position.
\<close>

definition uuid_index_map :: "'f gpu list \<Rightarrow> (string \<rightharpoonup> int)" where
  \<comment> \<open>\<open>{g['uuid']: g['index'] for g in gpus}\<close>\<close>
  "uuid_index_map gpus = fold (\<lambda>g m. m(g_uuid g \<mapsto> g_index g)) gpus Map.empty"

type_synonym per_gpu = "(int \<times> proc list) list"

definition init_per_gpu :: "'f gpu list \<Rightarrow> per_gpu" where
  \<comment> \<open>\<open>per_gpu[g['index']] = []\<close> for each device, keys in insertion order\<close>
  "init_per_gpu gpus = fold (\<lambda>g d. AList.update (g_index g) [] d) gpus []"

definition group_proc :: "(string \<rightharpoonup> int) \<Rightarrow> proc \<Rightarrow> per_gpu \<Rightarrow> per_gpu" where
  "group_proc uuid_to_index p d =
     (case uuid_to_index (p_uuid p) of
        None \<Rightarrow> d
      | Some idx \<Rightarrow>
          (case map_of d idx of
             None \<Rightarrow> d
           | Some ps \<Rightarrow> AList.update idx (ps @ [p]) d))"

definition or0 :: "int option \<Rightarrow> int" where
  \<comment> \<open>\<open>x or 0\<close>\<close>
  "or0 x = (case x of None \<Rightarrow> 0 | Some v \<Rightarrow> if v = 0 then 0 else v)"

definition util_key :: "proc \<Rightarrow> int \<times> int" where
  \<comment> \<open>\<open>(x['sm'] or 0, x['mem'] or 0)\<close>\<close>
  "util_key x = (or0 (p_sm x), or0 (Some (p_mem x)))"

definition sort_reverse :: "('a \<Rightarrow> 'k::linorder) \<Rightarrow> 'a list \<Rightarrow> 'a list" where
  \<comment> \<open>\<open>list.sort(key=..., reverse=True)\<close>: a stable sort of the reversed list, reversed\<close>
  "sort_reverse key xs = rev (sort_key key (rev xs))"

definition grouped :: "'f gpu list \<Rightarrow> proc list \<Rightarrow> per_gpu" where
  \<comment> \<open>\<open>per_gpu\<close> after the two grouping loops, before the sort\<close>
  "grouped gpus procs = fold (group_proc (uuid_index_map gpus)) procs (init_per_gpu gpus)"

definition sort_groups :: "per_gpu \<Rightarrow> per_gpu" where
  "sort_groups d = map (\<lambda>(idx, ps). (idx, sort_reverse util_key ps)) d"

definition snapshot :: "'f lib \<Rightarrow> os \<Rightarrow> exn + ('f gpu list \<times> per_gpu)" where
  "snapshot L os =
     (case get_gpu_stats L os of
        Inl e \<Rightarrow> Inl e
      | Inr gpus \<Rightarrow>
     (case get_compute_processes L os of
        Inl e \<Rightarrow> Inl e
      | Inr procs \<Rightarrow>
     (case get_pmon_once L os of
        Inl e \<Rightarrow> Inl e
      | Inr pmon \<Rightarrow>
          (let procs' = enrich_procs_with_pmon procs pmon (uuid_index_map gpus)
           in Inr (gpus, sort_groups (grouped gpus procs'))))))"

section \<open>Fixtures\<close>

definition decimal_float :: "string \<Rightarrow> rat option" where
  \<comment> \<open>\<open>float()\<close> on the literals of the fixtures: unsigned digits, a point, digits,
      for values that a double holds exactly\<close>
  "decimal_float s =
     (case split_sep CHR ''.'' s of
        [a, b] \<Rightarrow>
          (if a \<noteq> [] \<and> b \<noteq> [] \<and> list_all is_digit a \<and> list_all is_digit b then
             (case (int_digits 0 False a, int_digits 0 False b) of
                (Some x, Some y) \<Rightarrow> Some (of_int x + of_int y / 10 ^ length b)
              | _ \<Rightarrow> None)
           else None)
      | _ \<Rightarrow> None)"

definition ascii_lib :: "rat lib" where
  \<comment> \<open>the decoder on ASCII bytes, where UTF-8 decoding changes nothing\<close>
  "ascii_lib = \<lparr>decode_ignore = (\<lambda>b. b), py_float = decimal_float\<rparr>"

definition nl :: string where
  "nl = [CHR 0x0A]"

definition tool :: "bytes \<Rightarrow> bytes \<Rightarrow> bytes \<Rightarrow> os" where
  \<comment> \<open>an installed tool that prints the three given reports and exits with status 0\<close>
  "tool gpu_out proc_out pmon_out argv =
     (if shlex_split gpu_cmd = Inr argv then Returned gpu_out
      else if shlex_split proc_cmd = Inr argv then Returned proc_out
      else if shlex_split pmon_cmd = Inr argv then Returned pmon_out
      else FileNotFoundError)"

definition os_absent :: os where
  \<comment> \<open>no \<open>nvidia-smi\<close> on the path\<close>
  "os_absent argv = FileNotFoundError"

definition os_denied :: os where
  \<comment> \<open>a file that is found but may not be executed\<close>
  "os_denied argv = Raised ''PermissionError''"

definition os_failing :: "bytes \<Rightarrow> os" where
  \<comment> \<open>a tool that prints a diagnostic and exits with a non-zero status\<close>
  "os_failing out argv = CalledProcessError out"

definition gpu_report :: bytes where
  "gpu_report =
     ''GPU-1, 0, NVIDIA A100, 45, 80, 1024, 40960, 72.50, 250.00, 1410, N/A'' @ nl @
     ''GPU-2, 1, Tesla T4, 40, 0, 0, 16384, N/A, N/A, N/A'' @ nl"

definition gpu_report_swapped :: bytes where
  "gpu_report_swapped =
     ''GPU-2, 1, Tesla T4, 40, 0, 0, 16384, N/A, N/A, N/A'' @ nl @
     ''GPU-1, 0, NVIDIA A100, 45, 80, 1024, 40960, 72.50, 250.00, 1410, N/A'' @ nl"

definition gpu_report_hot :: bytes where
  \<comment> \<open>the second row has an unparseable temperature, the third no fan column\<close>
  "gpu_report_hot =
     ''GPU-1, 0, NVIDIA A100, 45, 80, 1024, 40960, 72.50, 250.00, 1410, 30'' @ nl @
     ''GPU-3, 2, Broken, hot, 0, 0, 16384, N/A, N/A, N/A, N/A'' @ nl @
     ''GPU-2, 1, Tesla T4, 40, 0, 0, 16384, N/A, N/A, N/A'' @ nl"

definition proc_report :: bytes where
  "proc_report =
     ''100, /usr/bin/python3, 512, GPU-1'' @ nl @
     ''200, /opt/app, 256, GPU-1'' @ nl @
     ''300, /bin/lost, N/A, GPU-9'' @ nl"

definition pmon_header :: bytes where
  "pmon_header =
     ''# gpu        pid  type    sm   mem   enc   dec    fb   command'' @ nl @
     ''# Idx          #   C/G     %     %     %     %    MB   name'' @ nl"

definition pmon_report :: bytes where
  "pmon_report = pmon_header @
     ''    0        100     C    80    40     -     -   512   python3'' @ nl @
     ''    1          -     -     -     -     -     -     -   -'' @ nl"

definition pmon_report_dash :: bytes where
  \<comment> \<open>process 100 is listed, its utilization columns hold the sentinel\<close>
  "pmon_report_dash = pmon_header @
     ''    0        100     C     -     -     -     -   512   python3'' @ nl"

definition pmon_report_idle :: bytes where
  "pmon_report_idle = pmon_header @
     ''    1          -     -     -     -     -     -     -   -'' @ nl"

definition pmon_report_bad :: bytes where
  \<comment> \<open>the second row has a pid that is neither the sentinel nor an integer\<close>
  "pmon_report_bad = pmon_header @
     ''    0        100     C    80    40     -     -   512   python3'' @ nl @
     ''    0        1x0     C    11    22     -     -   128   broken'' @ nl @
     ''    0        200     C     5     7     -     -   256   app'' @ nl"

definition gpu_a100 :: "rat gpu" where
  "gpu_a100 = \<lparr>g_uuid = ''GPU-1'', g_index = 0, g_name = ''NVIDIA A100'', g_temp = 45,
     g_util = 80, g_mem_used = 1024, g_mem_total = 40960, g_pwr = Some (145 / 2),
     g_pwr_lim = Some 250, g_sm_clock = Some 1410, g_fan = None\<rparr>"

definition gpu_t4 :: "rat gpu" where
  "gpu_t4 = \<lparr>g_uuid = ''GPU-2'', g_index = 1, g_name = ''Tesla T4'', g_temp = 40,
     g_util = 0, g_mem_used = 0, g_mem_total = 16384, g_pwr = None,
     g_pwr_lim = None, g_sm_clock = None, g_fan = None\<rparr>"

definition proc_python :: proc where
  "proc_python = \<lparr>p_pid = 100, p_name = ''python3'', p_mem = 512, p_uuid = ''GPU-1'',
     p_sm = None, p_mem_util = None\<rparr>"

definition proc_app :: proc where
  "proc_app = \<lparr>p_pid = 200, p_name = ''app'', p_mem = 256, p_uuid = ''GPU-1'',
     p_sm = None, p_mem_util = None\<rparr>"

definition proc_lost :: proc where
  "proc_lost = \<lparr>p_pid = 300, p_name = ''lost'', p_mem = 0, p_uuid = ''GPU-9'',
     p_sm = None, p_mem_util = None\<rparr>"

definition sample_python :: pmon where
  "sample_python = \<lparr>e_gpu = 0, e_pid = Some 100, e_sm = Some 80, e_mem = Some 40,
     e_cmd = ''python3''\<rparr>"

definition sample_idle :: pmon where
  "sample_idle = \<lparr>e_gpu = 1, e_pid = None, e_sm = None, e_mem = None, e_cmd = ''-''\<rparr>"

definition fx_os :: os where
  "fx_os = tool gpu_report proc_report pmon_report"

definition sample_app :: pmon where
  "sample_app = \<lparr>e_gpu = 0, e_pid = Some 200, e_sm = Some 5, e_mem = Some 7,
     e_cmd = ''app''\<rparr>"

definition fx_os_later :: os where
  \<comment> \<open>the same tool at a later call: it differs on a command line that is never run\<close>
  "fx_os_later = fx_os([''nvidia-smi'', ''-L''] := Returned ''GPU 0: NVIDIA A100'')"

section \<open>Auxiliary facts\<close>

subsection \<open>The three command lines\<close>

lemma shlex_gpu_cmd:
  "shlex_split gpu_cmd = Inr [''nvidia-smi'',
     ''--query-gpu=uuid,index,name,temperature.gpu,utilization.gpu,memory.used,memory.total,power.draw,power.limit,clocks.sm,fan.speed'',
     ''--format=csv,noheader,nounits'']"
  by code_simp

lemma shlex_proc_cmd:
  "shlex_split proc_cmd = Inr [''nvidia-smi'',
     ''--query-compute-apps=pid,process_name,used_memory,gpu_uuid'',
     ''--format=csv,noheader,nounits'']"
  by code_simp

lemma shlex_pmon_cmd:
  "shlex_split pmon_cmd = Inr [''nvidia-smi'', ''pmon'', ''-c'', ''1'', ''-s'', ''um'']"
  by code_simp

subsection \<open>The row loops\<close>

lemma gpu_stats_loop_append:
  "gpu_stats_loop L (xs @ ys) = gpu_stats_loop L xs @ gpu_stats_loop L ys"
  by (induction xs) (auto split: option.splits)

lemma gpu_stats_loop_map_filter:
  "gpu_stats_loop L rows = List.map_filter (gpu_of_row L) rows"
  by (induction rows) (auto simp: List.map_filter_simps split: option.splits)

lemma procs_loop_unset:
  "p \<in> set (procs_loop rows) \<Longrightarrow> p_sm p = None \<and> p_mem_util p = None"
  by (induction rows)
     (auto simp: proc_of_row_def split: option.splits Option.bind_splits if_splits)

lemma pmon_loop_append: "pmon_loop (xs @ ys) = pmon_loop xs @ pmon_loop ys"
  by (induction xs) (auto simp: Let_def split: option.splits)

subsection \<open>The utilization lookup\<close>

lemma fold_upd_lookup:
  "fold (\<lambda>e ix. ix(f e \<mapsto> e)) es ix0 k =
     (if filter (\<lambda>e. f e = k) es = [] then ix0 k
      else Some (last (filter (\<lambda>e. f e = k) es)))"
  by (induction es arbitrary: ix0) auto

lemma pmon_index_lookup:
  "pmon_index pmon (Some g, Some pid) =
     (let ms = filter (\<lambda>e. e_gpu e = g \<and> e_pid e = Some pid) pmon
      in if ms = [] then None else Some (last ms))"
proof -
  have "filter (\<lambda>e. pmon_key e = (Some g, Some pid)) (filter (\<lambda>e. e_pid e \<noteq> None) pmon)
      = filter (\<lambda>e. e_gpu e = g \<and> e_pid e = Some pid) pmon"
    by (induction pmon) (auto simp: pmon_key_def)
  then show ?thesis
    by (simp add: pmon_index_def fold_upd_lookup Let_def)
qed

lemma pmon_index_no_device: "pmon_index pmon (None, k) = None"
  by (simp add: pmon_index_def fold_upd_lookup pmon_key_def)

subsection \<open>Grouping\<close>

lemma uuid_index_fold_range:
  "fold (\<lambda>g m. m(g_uuid g \<mapsto> g_index g)) gpus m0 u = Some k
     \<Longrightarrow> m0 u = Some k \<or> k \<in> g_index ` set gpus"
  by (induction gpus arbitrary: m0) (fastforce split: if_splits)+

lemma init_keys:
  "fst ` set (fold (\<lambda>g d. AList.update (g_index g) [] d) gpus d)
     = fst ` set d \<union> g_index ` set gpus"
  by (induction gpus arbitrary: d) (auto simp: dom_update)

lemma init_distinct:
  "distinct (map fst d)
     \<Longrightarrow> distinct (map fst (fold (\<lambda>g d. AList.update (g_index g) [] d) gpus d))"
  by (induction gpus arbitrary: d) (auto simp: distinct_update)

lemma update_set_subset: "set (AList.update k v al) \<subseteq> insert (k, v) (set al)"
  by (induction al) auto

lemma init_empty:
  "\<forall>(k, v) \<in> set d. v = []
     \<Longrightarrow> (k, v) \<in> set (fold (\<lambda>g d. AList.update (g_index g) [] d) gpus d) \<Longrightarrow> v = []"
proof (induction gpus arbitrary: d)
  case Nil
  then show ?case by auto
next
  case (Cons g gpus)
  have "\<forall>(k, v) \<in> set (AList.update (g_index g) [] d). v = []"
    using Cons.prems(1) update_set_subset[of "g_index g" "[]" d] by auto
  then show ?case using Cons.IH Cons.prems(2) by simp
qed

lemma group_proc_keys: "map fst (group_proc m p d) = map fst d"
proof -
  have "map_of d k = Some ps \<Longrightarrow> k \<in> fst ` set d" for k ps
    by (force dest: map_of_SomeD)
  then show ?thesis
    by (auto simp: group_proc_def update_keys split: option.splits)
qed

lemma group_fold_keys: "map fst (fold (group_proc m) procs d) = map fst d"
  by (induction procs arbitrary: d) (auto simp: group_proc_keys)

lemma group_proc_lookup:
  "map_of (group_proc m p d) k =
     map_option (\<lambda>ps. ps @ (if m (p_uuid p) = Some k then [p] else [])) (map_of d k)"
  by (auto simp: group_proc_def update_conv' split: option.splits)

lemma group_fold_lookup:
  "map_of (fold (group_proc m) procs d) k =
     map_option (\<lambda>ps. ps @ filter (\<lambda>p. m (p_uuid p) = Some k) procs) (map_of d k)"
  by (induction procs arbitrary: d)
     (auto simp: group_proc_lookup option.map_comp comp_def option.map_ident)

subsection \<open>Sorting\<close>

lemma sort_reverse_mset: "mset (sort_reverse key xs) = mset xs"
  by (simp add: sort_reverse_def)

lemma sort_reverse_sorted: "sorted_wrt (\<lambda>a b. key a \<ge> key b) (sort_reverse key xs)"
proof -
  have "sorted (map key (sort_key key (rev xs)))"
    by (rule sorted_sort_key)
  then have "sorted_wrt (\<lambda>a b. key a \<le> key b) (sort_key key (rev xs))"
    by (simp add: sorted_map)
  then show ?thesis
    by (simp add: sort_reverse_def sorted_wrt_rev)
qed

subsection \<open>The stages of snapshot\<close>

lemma snapshot_Inr:
  assumes "snapshot L os = Inr (gpus, per_gpu)"
  obtains procs pmon where "get_gpu_stats L os = Inr gpus"
    and "get_compute_processes L os = Inr procs"
    and "get_pmon_once L os = Inr pmon"
    and "per_gpu = sort_groups (grouped gpus (enrich_procs_with_pmon procs pmon (uuid_index_map gpus)))"
  using assms by (auto simp: snapshot_def Let_def split: sum.splits)

lemma grouped_keys:
  "distinct (map fst (grouped gpus procs))" "fst ` set (grouped gpus procs) = g_index ` set gpus"
proof -
  have k: "map fst (grouped gpus procs) = map fst (init_per_gpu gpus)"
    by (simp add: grouped_def group_fold_keys)
  show "distinct (map fst (grouped gpus procs))"
    unfolding k init_per_gpu_def by (rule init_distinct) simp
  have "set (map fst (grouped gpus procs)) = g_index ` set gpus"
    unfolding k init_per_gpu_def using init_keys[of gpus "[]"] by simp
  then show "fst ` set (grouped gpus procs) = g_index ` set gpus" by simp
qed

lemma grouped_members:
  assumes "(idx, ps) \<in> set (grouped gpus procs)"
  shows "ps = filter (\<lambda>p. uuid_index_map gpus (p_uuid p) = Some idx) procs"
proof -
  have "map_of (grouped gpus procs) idx = Some ps"
    using assms grouped_keys(1)[of gpus procs] by (simp add: map_of_eq_Some_iff)
  then obtain ps0 where a: "map_of (init_per_gpu gpus) idx = Some ps0"
    and b: "ps = ps0 @ filter (\<lambda>p. uuid_index_map gpus (p_uuid p) = Some idx) procs"
    by (auto simp: grouped_def group_fold_lookup)
  have "(idx, ps0) \<in> set (init_per_gpu gpus)"
    using a by (rule map_of_SomeD)
  then have "ps0 = []"
    unfolding init_per_gpu_def using init_empty[of "[]" idx ps0 gpus] by simp
  with b show ?thesis by simp
qed

lemma sort_groups_members:
  "(idx, ps) \<in> set (sort_groups d) \<longleftrightarrow> (\<exists>qs. (idx, qs) \<in> set d \<and> ps = sort_reverse util_key qs)"
  by (auto simp: sort_groups_def)

lemma sort_groups_keys: "map fst (sort_groups d) = map fst d"
  by (simp add: sort_groups_def split_def comp_def)

lemma enrich_proc_same [simp]: "p_uuid (enrich_proc ix m p) = p_uuid p" "p_pid (enrich_proc ix m p) = p_pid p"
  "p_mem (enrich_proc ix m p) = p_mem p"
  by (auto simp: enrich_proc_def Let_def split: option.splits)

lemma uuid_index_map_range: "uuid_index_map gpus u = Some k \<Longrightarrow> k \<in> g_index ` set gpus"
  unfolding uuid_index_map_def using uuid_index_fold_range[of gpus Map.empty u k] by simp

lemma util_key_eq:
  "util_key a = (case p_sm a of None \<Rightarrow> 0 | Some v \<Rightarrow> v, p_mem a)"
  by (auto simp: util_key_def or0_def split: option.splits)

lemma pmon_index_skip_null:
  "e_pid e = None \<Longrightarrow> pmon_index (xs @ e # ys) = pmon_index (xs @ ys)"
  by (simp add: pmon_index_def)

subsection \<open>The fixtures, evaluated\<close>

lemma fx_snapshot:
  "snapshot ascii_lib fx_os = Inr ([gpu_a100, gpu_t4],
     [(0, [proc_python\<lparr>p_sm := Some 80, p_mem_util := Some 40\<rparr>, proc_app]), (1, [])])"
  by code_simp

lemma fx_pmon: "get_pmon_once ascii_lib fx_os = Inr [sample_python, sample_idle]"
  by code_simp

lemma fx_procs:
  "get_compute_processes ascii_lib fx_os = Inr [proc_python, proc_app, proc_lost]"
  by code_simp

lemma fx_gpu_out: "run_cmd ascii_lib fx_os gpu_cmd = Inr gpu_report"
  by code_simp

lemma fx_pmon_out: "run_cmd ascii_lib fx_os pmon_cmd = Inr pmon_report"
  by code_simp

lemma map_filter_map:
  "map f (List.map_filter g xs) = List.map_filter (\<lambda>x. map_option f (g x)) xs"
  by (induction xs) (auto simp: List.map_filter_simps split: option.splits)

section \<open>The claims\<close>

text \<open>
  C1, as amended. For every process record \<open>p\<close> listed under device index \<open>idx\<close> in the
  snapshot: when the sampler returned no sample with device index \<open>idx\<close> and the pid
  of \<open>p\<close>, both utilization fields of \<open>p\<close> are null; otherwise they equal the
  \<open>sm\<close> and \<open>mem\<close> fields of the last such sample in the sampler's output, which
  are null where the sample holds the sentinel.
\<close>

theorem join_last_matching_sample:
  assumes "snapshot L os = Inr (gpus, per_gpu)" and "get_pmon_once L os = Inr pmon"
    and "(idx, ps) \<in> set per_gpu" and "p \<in> set ps"
  shows "let ms = filter (\<lambda>e. e_gpu e = idx \<and> e_pid e = Some (p_pid p)) pmon in
         (ms = [] \<longrightarrow> p_sm p = None \<and> p_mem_util p = None) \<and>
         (ms \<noteq> [] \<longrightarrow> p_sm p = e_sm (last ms) \<and> p_mem_util p = e_mem (last ms))"
proof -
  let ?m = "uuid_index_map gpus"
  from assms(1) obtain procs pmon' where
    procs: "get_compute_processes L os = Inr procs" and
    pmon': "get_pmon_once L os = Inr pmon'" and
    pg: "per_gpu = sort_groups (grouped gpus (enrich_procs_with_pmon procs pmon' ?m))"
    by (rule snapshot_Inr)
  from pmon' assms(2) have [simp]: "pmon' = pmon" by simp
  let ?procs' = "enrich_procs_with_pmon procs pmon ?m"
  from assms(3) pg obtain qs where qs: "(idx, qs) \<in> set (grouped gpus ?procs')"
    and ps: "ps = sort_reverse util_key qs"
    by (auto simp: sort_groups_members)
  have "set ps = set qs"
    using sort_reverse_mset[of util_key qs] ps by (metis set_mset_mset)
  with assms(4) have "p \<in> set qs" by simp
  then have pin: "p \<in> set ?procs'" and pm: "?m (p_uuid p) = Some idx"
    using grouped_members[OF qs] by auto
  from pin obtain p0 where p0: "p0 \<in> set procs" and pe: "p = enrich_proc (pmon_index pmon) ?m p0"
    by (auto simp: enrich_procs_with_pmon_def Let_def)
  from procs obtain out where "procs = procs_loop (parse_csv out)"
    by (auto simp: get_compute_processes_def split: sum.splits)
  with p0 have unset: "p_sm p0 = None" "p_mem_util p0 = None"
    using procs_loop_unset by blast+
  have m0: "?m (p_uuid p0) = Some idx" and pid: "p_pid p = p_pid p0"
    using pm pe by simp_all
  show ?thesis
    unfolding pid using unset m0 unfolding pe
    by (simp add: enrich_proc_def pmon_index_lookup Let_def)
qed

theorem join_last_matching_sample_witness:
  "snapshot ascii_lib fx_os = Inr ([gpu_a100, gpu_t4],
     [(0, [proc_python\<lparr>p_sm := Some 80, p_mem_util := Some 40\<rparr>, proc_app]), (1, [])]) \<and>
   get_pmon_once ascii_lib fx_os = Inr [sample_python, sample_idle] \<and>
   p_sm (proc_python\<lparr>p_sm := Some 80, p_mem_util := Some 40\<rparr>) = e_sm sample_python \<and>
   p_mem_util (proc_python\<lparr>p_sm := Some 80, p_mem_util := Some 40\<rparr>) = e_mem sample_python \<and>
   p_sm proc_app = None \<and> p_mem_util proc_app = None"
proof -
  let ?py = "proc_python\<lparr>p_sm := Some 80, p_mem_util := Some 40\<rparr>"
  let ?pg = "[(0, [?py, proc_app]), (1::int, [])]"
  have g: "(0, [?py, proc_app]) \<in> set ?pg"
    by simp
  have p1: "?py \<in> set [?py, proc_app]" and p2: "proc_app \<in> set [?py, proc_app]"
    by simp_all
  show ?thesis
    using join_last_matching_sample[OF fx_snapshot fx_pmon g p1]
          join_last_matching_sample[OF fx_snapshot fx_pmon g p2]
          fx_snapshot fx_pmon
    by (simp add: proc_python_def proc_app_def sample_python_def sample_idle_def)
qed

text \<open>
  C1 as stated fails: process 100 on device 0 and the sample of (0, 100) share their
  key, and the process record of the snapshot has null utilization, because the
  sample's columns hold the sentinel.
\<close>

theorem join_null_sample_counterexample:
  "snapshot ascii_lib (tool gpu_report proc_report pmon_report_dash) =
     Inr ([gpu_a100, gpu_t4],
          [(0, [\<lparr>p_pid = 100, p_name = ''python3'', p_mem = 512, p_uuid = ''GPU-1'',
                  p_sm = None, p_mem_util = None\<rparr>, proc_app]), (1, [])]) \<and>
   get_pmon_once ascii_lib (tool gpu_report proc_report pmon_report_dash) =
     Inr [\<lparr>e_gpu = 0, e_pid = Some 100, e_sm = None, e_mem = None, e_cmd = ''python3''\<rparr>]"
  by code_simp

text \<open>
  C2. In every result of \<open>snapshot\<close> the keys of \<open>per_gpu\<close> are pairwise distinct and
  are exactly the device indexes of the devices; every process listed under a key
  has a device uuid that the device query maps to that key, which is the index of a
  device; and a device to which no process record resolves has the empty sequence.
\<close>

theorem grouping_complete:
  assumes "snapshot L os = Inr (gpus, per_gpu)" and "get_compute_processes L os = Inr procs"
  shows "distinct (map fst per_gpu) \<and> fst ` set per_gpu = g_index ` set gpus \<and>
         (\<forall>(idx, ps) \<in> set per_gpu. \<forall>p \<in> set ps.
             idx \<in> g_index ` set gpus \<and> uuid_index_map gpus (p_uuid p) = Some idx) \<and>
         (\<forall>(idx, ps) \<in> set per_gpu.
             (\<forall>q \<in> set procs. uuid_index_map gpus (p_uuid q) \<noteq> Some idx) \<longrightarrow> ps = [])"
proof -
  let ?m = "uuid_index_map gpus"
  from assms(1) obtain procs' pmon where
    procs': "get_compute_processes L os = Inr procs'" and
    pg: "per_gpu = sort_groups (grouped gpus (enrich_procs_with_pmon procs' pmon ?m))"
    by (rule snapshot_Inr)
  from procs' assms(2) have [simp]: "procs' = procs" by simp
  let ?e = "enrich_procs_with_pmon procs pmon ?m"
  have keys: "map fst per_gpu = map fst (grouped gpus ?e)"
    using pg by (simp add: sort_groups_keys)
  have d: "distinct (map fst per_gpu)"
    unfolding keys by (rule grouped_keys)
  have "set (map fst per_gpu) = set (map fst (grouped gpus ?e))"
    using keys by simp
  then have k: "fst ` set per_gpu = g_index ` set gpus"
    using grouped_keys(2)[of gpus ?e] by simp
  have mem: "ps = sort_reverse util_key (filter (\<lambda>p. ?m (p_uuid p) = Some idx) ?e)"
    if "(idx, ps) \<in> set per_gpu" for idx ps
    using that pg grouped_members[of idx _ gpus ?e] by (auto simp: sort_groups_members)
  have setps: "set ps = {p \<in> set ?e. ?m (p_uuid p) = Some idx}"
    if "(idx, ps) \<in> set per_gpu" for idx ps
  proof -
    have "mset ps = mset (filter (\<lambda>p. ?m (p_uuid p) = Some idx) ?e)"
      using mem[OF that] sort_reverse_mset by metis
    then have "set ps = set (filter (\<lambda>p. ?m (p_uuid p) = Some idx) ?e)"
      by (rule mset_eq_setD)
    then show ?thesis by simp
  qed
  have a: "\<forall>(idx, ps) \<in> set per_gpu. \<forall>p \<in> set ps.
             idx \<in> g_index ` set gpus \<and> ?m (p_uuid p) = Some idx"
    using setps uuid_index_map_range by fastforce
  have b: "\<forall>(idx, ps) \<in> set per_gpu.
             (\<forall>q \<in> set procs. ?m (p_uuid q) \<noteq> Some idx) \<longrightarrow> ps = []"
  proof (clarify)
    fix idx ps assume in_pg: "(idx, ps) \<in> set per_gpu"
      and none: "\<forall>q \<in> set procs. ?m (p_uuid q) \<noteq> Some idx"
    have "{p \<in> set ?e. ?m (p_uuid p) = Some idx} = {}"
      using none by (auto simp: enrich_procs_with_pmon_def Let_def)
    with setps[OF in_pg] show "ps = []" by simp
  qed
  from d k a b show ?thesis by blast
qed

theorem grouping_complete_witness:
  "snapshot ascii_lib fx_os = Inr ([gpu_a100, gpu_t4],
     [(0, [proc_python\<lparr>p_sm := Some 80, p_mem_util := Some 40\<rparr>, proc_app]), (1, [])]) \<and>
   get_compute_processes ascii_lib fx_os = Inr [proc_python, proc_app, proc_lost] \<and>
   distinct (map fst
     [(0::int, [proc_python\<lparr>p_sm := Some 80, p_mem_util := Some 40\<rparr>, proc_app]), (1, [])]) \<and>
   fst ` set [(0::int, [proc_python\<lparr>p_sm := Some 80, p_mem_util := Some 40\<rparr>, proc_app]),
              (1, [])] = g_index ` set [gpu_a100, gpu_t4] \<and>
   uuid_index_map [gpu_a100, gpu_t4] (p_uuid proc_app) = Some 0"
  using grouping_complete[OF fx_snapshot fx_procs] fx_snapshot fx_procs
  by simp

text \<open>
  C3, as amended. In every result of \<open>snapshot\<close> the devices sequence holds the records
  of the well-formed rows of the device query output, in the order of those rows: no
  sorting is applied. It is therefore ascending by device index exactly when the
  indexes of the well-formed rows are ascending in the output.
\<close>

theorem devices_in_row_order:
  assumes "snapshot L os = Inr (gpus, per_gpu)" and "run_cmd L os gpu_cmd = Inr out"
  shows "gpus = List.map_filter (gpu_of_row L) (parse_csv out) \<and>
         (sorted_wrt (\<lambda>a b. g_index a < g_index b) gpus \<longleftrightarrow>
          sorted_wrt (<) (List.map_filter (\<lambda>r. map_option g_index (gpu_of_row L r))
                            (parse_csv out)))"
proof -
  from assms(1) have "get_gpu_stats L os = Inr gpus"
    by (rule snapshot_Inr)
  with assms(2) have g: "gpus = List.map_filter (gpu_of_row L) (parse_csv out)"
    by (simp add: get_gpu_stats_def gpu_stats_loop_map_filter)
  have "sorted_wrt (\<lambda>a b. g_index a < g_index b) gpus \<longleftrightarrow> sorted_wrt (<) (map g_index gpus)"
    by (simp add: sorted_wrt_map)
  with g show ?thesis
    by (simp add: map_filter_map)
qed

theorem devices_in_row_order_witness:
  "snapshot ascii_lib fx_os = Inr ([gpu_a100, gpu_t4],
     [(0, [proc_python\<lparr>p_sm := Some 80, p_mem_util := Some 40\<rparr>, proc_app]), (1, [])]) \<and>
   run_cmd ascii_lib fx_os gpu_cmd = Inr gpu_report \<and>
   [gpu_a100, gpu_t4] = List.map_filter (gpu_of_row ascii_lib) (parse_csv gpu_report) \<and>
   sorted_wrt (\<lambda>a b. g_index a < g_index b) [gpu_a100, gpu_t4]"
proof -
  note c = devices_in_row_order[OF fx_snapshot fx_gpu_out]
  have "sorted_wrt (<) (List.map_filter (\<lambda>r. map_option g_index (gpu_of_row ascii_lib r))
                          (parse_csv gpu_report))"
    by code_simp
  with c have "sorted_wrt (\<lambda>a b. g_index a < g_index b) [gpu_a100, gpu_t4]"
    by blast
  with c fx_snapshot fx_gpu_out show ?thesis
    by blast
qed

text \<open>
  C3 as stated fails: when the device query lists index 1 before index 0, so does the
  devices sequence.
\<close>

theorem devices_not_sorted_counterexample:
  "snapshot ascii_lib (tool gpu_report_swapped proc_report pmon_report) =
     Inr ([gpu_t4, gpu_a100],
          [(1, []), (0, [proc_python\<lparr>p_sm := Some 80, p_mem_util := Some 40\<rparr>, proc_app])]) \<and>
   g_index gpu_t4 = 1 \<and> g_index gpu_a100 = 0 \<and>
   \<not> sorted_wrt (\<lambda>a b. g_index a < g_index b) [gpu_t4, gpu_a100]"
  by code_simp

text \<open>
  C4. In every result of \<open>snapshot\<close>, each device's process sequence is in descending
  lexicographic order of (sm utilization, memory in MiB), a null utilization counting
  as 0: the order holds between every two positions, so between adjacent ones. The
  sequence is a rearrangement of the group as it was before sorting, so the records
  are unchanged and a null utilization is still null.
\<close>

theorem groups_sorted_descending:
  assumes "snapshot L os = Inr (gpus, per_gpu)"
    and "get_compute_processes L os = Inr procs" and "get_pmon_once L os = Inr pmon"
    and "(idx, ps) \<in> set per_gpu"
  shows "sorted_wrt (\<lambda>a b. (case p_sm a of None \<Rightarrow> 0 | Some v \<Rightarrow> v, p_mem a)
                          \<ge> (case p_sm b of None \<Rightarrow> 0 | Some v \<Rightarrow> v, p_mem b)) ps \<and>
         successively (\<lambda>a b. (case p_sm a of None \<Rightarrow> 0 | Some v \<Rightarrow> v, p_mem a)
                          \<ge> (case p_sm b of None \<Rightarrow> 0 | Some v \<Rightarrow> v, p_mem b)) ps \<and>
         (\<exists>qs. (idx, qs) \<in> set (grouped gpus
                   (enrich_procs_with_pmon procs pmon (uuid_index_map gpus))) \<and>
               mset ps = mset qs \<and>
               (\<forall>p \<in> set qs. p_sm p = None \<longrightarrow> p \<in> set ps))"
proof -
  let ?P = "\<lambda>a b. (case p_sm a of None \<Rightarrow> 0 | Some v \<Rightarrow> v, p_mem a)
                 \<ge> (case p_sm b of None \<Rightarrow> 0 | Some v \<Rightarrow> v, p_mem b)"
  from assms(1) obtain procs' pmon' where
    "get_compute_processes L os = Inr procs'" and "get_pmon_once L os = Inr pmon'" and
    pg: "per_gpu = sort_groups (grouped gpus
           (enrich_procs_with_pmon procs' pmon' (uuid_index_map gpus)))"
    by (rule snapshot_Inr)
  with assms(2,3) have [simp]: "procs' = procs" "pmon' = pmon" by simp_all
  from assms(4) pg obtain qs where
    qs: "(idx, qs) \<in> set (grouped gpus (enrich_procs_with_pmon procs pmon (uuid_index_map gpus)))"
    and ps: "ps = sort_reverse util_key qs"
    by (auto simp: sort_groups_members)
  have "sorted_wrt (\<lambda>a b. util_key a \<ge> util_key b) ps"
    unfolding ps by (rule sort_reverse_sorted)
  then have s: "sorted_wrt ?P ps"
    by (simp add: util_key_eq)
  then have a: "successively ?P ps"
    by (rule successively_if_sorted_wrt)
  have m: "mset ps = mset qs"
    unfolding ps by (rule sort_reverse_mset)
  then have "set ps = set qs"
    by (rule mset_eq_setD)
  with s a m qs show ?thesis by blast
qed

theorem groups_sorted_descending_witness:
  "snapshot ascii_lib fx_os = Inr ([gpu_a100, gpu_t4],
     [(0, [proc_python\<lparr>p_sm := Some 80, p_mem_util := Some 40\<rparr>, proc_app]), (1, [])]) \<and>
   (0, [proc_python\<lparr>p_sm := Some 80, p_mem_util := Some 40\<rparr>, proc_app])
     \<in> set [(0, [proc_python\<lparr>p_sm := Some 80, p_mem_util := Some 40\<rparr>, proc_app]), (1::int, [])] \<and>
   successively (\<lambda>a b. (case p_sm a of None \<Rightarrow> 0 | Some v \<Rightarrow> v, p_mem a)
                          \<ge> (case p_sm b of None \<Rightarrow> 0 | Some v \<Rightarrow> v, p_mem b))
     [proc_python\<lparr>p_sm := Some 80, p_mem_util := Some 40\<rparr>, proc_app] \<and>
   p_sm proc_app = None"
proof -
  have h: "(0, [proc_python\<lparr>p_sm := Some 80, p_mem_util := Some 40\<rparr>, proc_app])
     \<in> set [(0, [proc_python\<lparr>p_sm := Some 80, p_mem_util := Some 40\<rparr>, proc_app]), (1::int, [])]"
    by simp
  show ?thesis
    using groups_sorted_descending[OF fx_snapshot fx_procs fx_pmon h] fx_snapshot h
    by (simp add: proc_app_def)
qed

text \<open>
  C5, as amended. A monitoring row whose pid field is the sentinel is not dropped by
  the sampler: when the row is not a comment, has at least nine fields, an integer
  device index, and \<open>sm\<close> and \<open>mem\<close> fields that are each the sentinel or an integer,
  the sampler's output holds a sample with a null pid for it, at the row's position.
  The reconciler leaves such a sample out of its lookup, so the sample changes neither
  the lookup nor the join.
\<close>

theorem sentinel_pid_kept_then_ignored:
  assumes "run_cmd L os pmon_cmd = Inr out" and "splitlines out = before @ line # after"
    and "strip line \<noteq> []" and "\<not> startswith (strip line) ''#''"
    and "parts = split_ws (strip line)" and "length parts \<ge> 9"
    and "parts ! 1 = ''-''" and "py_int (parts ! 0) = Some g"
    and "unless_dash (parts ! 3) = Some sm" and "unless_dash (parts ! 4) = Some mem"
    and "s = \<lparr>e_gpu = g, e_pid = None, e_sm = sm, e_mem = mem, e_cmd = parts ! 8\<rparr>"
  shows "get_pmon_once L os = Inr (pmon_loop before @ s # pmon_loop after) \<and>
         pmon_index (xs @ s # ys) = pmon_index (xs @ ys) \<and>
         enrich_procs_with_pmon procs (xs @ s # ys) m = enrich_procs_with_pmon procs (xs @ ys) m"
proof -
  have "parts \<noteq> []"
    using assms(6) by auto
  then have "pmon_of_parts parts = Some s"
    using assms(6-11) by (simp add: pmon_of_parts_def item_def unless_dash_def)
  then have "pmon_loop [line] = [s]"
    using assms(3-6) by (simp add: Let_def)
  then have "pmon_loop (before @ line # after) = pmon_loop before @ s # pmon_loop after"
    using pmon_loop_append[of before "[line] @ after"] pmon_loop_append[of "[line]" after]
    by simp
  then have a: "get_pmon_once L os = Inr (pmon_loop before @ s # pmon_loop after)"
    using assms(1,2) by (simp add: get_pmon_once_def)
  have "e_pid s = None"
    using assms(11) by simp
  then have "pmon_index (xs @ s # ys) = pmon_index (xs @ ys)"
    by (rule pmon_index_skip_null)
  with a show ?thesis
    by (simp add: enrich_procs_with_pmon_def)
qed

theorem sentinel_pid_kept_then_ignored_witness:
  "get_pmon_once ascii_lib fx_os = Inr (pmon_loop
       (splitlines pmon_header @
        [''    0        100     C    80    40     -     -   512   python3''])
     @ sample_idle # pmon_loop []) \<and>
   pmon_index ([sample_python] @ sample_idle # []) = pmon_index ([sample_python] @ [])"
proof -
  let ?line = "''    1          -     -     -     -     -     -     -   -''"
  let ?parts = "[''1'', ''-'', ''-'', ''-'', ''-'', ''-'', ''-'', ''-'', ''-'']"
  let ?before = "splitlines pmon_header @
        [''    0        100     C    80    40     -     -   512   python3'']"
  have h2: "splitlines pmon_report = ?before @ ?line # []"
    by code_simp
  have h3: "strip ?line \<noteq> []" and h4: "\<not> startswith (strip ?line) ''#''"
    and h5: "?parts = split_ws (strip ?line)"
    by code_simp+
  have h6: "length ?parts \<ge> 9" and h7: "?parts ! 1 = ''-''"
    by simp_all
  have h8: "py_int (?parts ! 0) = Some 1" and h9: "unless_dash (?parts ! 3) = Some None"
    and h10: "unless_dash (?parts ! 4) = Some None"
    by code_simp+
  have h11: "sample_idle = \<lparr>e_gpu = 1, e_pid = None, e_sm = None, e_mem = None,
                             e_cmd = ?parts ! 8\<rparr>"
    by (simp add: sample_idle_def)
  from sentinel_pid_kept_then_ignored[OF fx_pmon_out h2 h3 h4 h5 h6 h7 h8 h9 h10 h11,
         of "[sample_python]" "[]"]
  show ?thesis
    by blast
qed

text \<open>
  C5 as stated fails: for an idle monitoring slot the sampler returns a sample with a
  null pid.
\<close>

theorem sentinel_pid_row_kept_counterexample:
  "get_pmon_once ascii_lib (tool gpu_report proc_report pmon_report_idle) =
     Inr [\<lparr>e_gpu = 1, e_pid = None, e_sm = None, e_mem = None, e_cmd = ''-''\<rparr>]"
  by code_simp

text \<open>
  C6. \<open>get_gpu_stats\<close> yields, for each row of the parsed device query output, the
  row's record or nothing, between the records of the rows before and after it, which
  are those they yield on their own. A row of ten or more columns whose fields convert
  yields the record holding exactly those conversions (the sentinel as null in the
  optional columns); a row with an integer column that does not convert yields
  nothing; a row of exactly ten columns that yields a record has a null fan speed.
\<close>

theorem readDevices_rows:
  assumes "run_cmd L os gpu_cmd = Inr out" and "parse_csv out = before @ r # after"
  shows "get_gpu_stats L os =
           Inr (gpu_stats_loop L before
                @ (case gpu_of_row L r of None \<Rightarrow> [] | Some g \<Rightarrow> [g])
                @ gpu_stats_loop L after) \<and>
         (r = [u, i, n, t, ut, mu, mt, pw, pl, sc] @ rest \<and>
          py_int i = Some iv \<and> py_int t = Some tv \<and> py_int ut = Some utv \<and>
          py_int mu = Some muv \<and> py_int mt = Some mtv \<and>
          unless_na (py_float L) pw = Some pwv \<and> unless_na (py_float L) pl = Some plv \<and>
          unless_na py_int sc = Some scv \<and>
          (rest = [] \<and> fv = None \<or> rest \<noteq> [] \<and> unless_na py_int (hd rest) = Some fv)
          \<longrightarrow> gpu_of_row L r =
                Some \<lparr>g_uuid = u, g_index = iv, g_name = n, g_temp = tv, g_util = utv,
                      g_mem_used = muv, g_mem_total = mtv, g_pwr = pwv, g_pwr_lim = plv,
                      g_sm_clock = scv, g_fan = fv\<rparr>) \<and>
         ((\<exists>k \<in> {1, 3, 4, 5, 6}. k < length r \<and> py_int (r ! k) = None)
          \<longrightarrow> gpu_of_row L r = None) \<and>
         (length r = 10 \<and> gpu_of_row L r = Some g \<longrightarrow> g_fan g = None)"
proof -
  have a: "get_gpu_stats L os =
           Inr (gpu_stats_loop L before
                @ (case gpu_of_row L r of None \<Rightarrow> [] | Some g \<Rightarrow> [g])
                @ gpu_stats_loop L after)"
    using assms gpu_stats_loop_append[of L before "r # after"]
    by (simp add: get_gpu_stats_def split: option.splits)
  have b: "gpu_of_row L r =
                Some \<lparr>g_uuid = u, g_index = iv, g_name = n, g_temp = tv, g_util = utv,
                      g_mem_used = muv, g_mem_total = mtv, g_pwr = pwv, g_pwr_lim = plv,
                      g_sm_clock = scv, g_fan = fv\<rparr>"
    if "r = [u, i, n, t, ut, mu, mt, pw, pl, sc] @ rest"
      "py_int i = Some iv" "py_int t = Some tv" "py_int ut = Some utv"
      "py_int mu = Some muv" "py_int mt = Some mtv"
      "unless_na (py_float L) pw = Some pwv" "unless_na (py_float L) pl = Some plv"
      "unless_na py_int sc = Some scv"
      "rest = [] \<and> fv = None \<or> rest \<noteq> [] \<and> unless_na py_int (hd rest) = Some fv"
  proof -
    have f: "(if length r > 10 \<and> r ! 10 \<noteq> ''N/A''
              then map_option Some (py_int (r ! 10)) else Some None) = Some fv"
      using that(1,10) by (cases rest) (auto simp: unless_na_def split: if_splits)
    show ?thesis
      unfolding gpu_of_row_def f using that(1-9) by (simp add: item_def)
  qed
  have c: "gpu_of_row L r = None" if "\<exists>k \<in> {1, 3, 4, 5, 6}. k < length r \<and> py_int (r ! k) = None"
    using that by (auto simp: gpu_of_row_def item_def split: Option.bind_splits)
  have d: "g_fan g = None" if "length r = 10" "gpu_of_row L r = Some g"
    using that by (auto simp: gpu_of_row_def split: Option.bind_splits)
  from a b c d show ?thesis by blast
qed

theorem readDevices_rows_witness:
  "get_gpu_stats ascii_lib (tool gpu_report_hot proc_report pmon_report)
     = Inr [gpu_a100\<lparr>g_fan := Some 30\<rparr>, gpu_t4] \<and>
   gpu_of_row ascii_lib
     [''GPU-3'', ''2'', ''Broken'', ''hot'', ''0'', ''0'', ''16384'', ''N/A'', ''N/A'', ''N/A'', ''N/A'']
     = None \<and>
   g_fan gpu_t4 = None"
proof -
  let ?os = "tool gpu_report_hot proc_report pmon_report"
  let ?r1 = "[''GPU-1'', ''0'', ''NVIDIA A100'', ''45'', ''80'', ''1024'', ''40960'',
              ''72.50'', ''250.00'', ''1410'', ''30'']"
  let ?r2 = "[''GPU-3'', ''2'', ''Broken'', ''hot'', ''0'', ''0'', ''16384'',
              ''N/A'', ''N/A'', ''N/A'', ''N/A'']"
  let ?r3 = "[''GPU-2'', ''1'', ''Tesla T4'', ''40'', ''0'', ''0'', ''16384'',
              ''N/A'', ''N/A'', ''N/A'']"
  have h1: "run_cmd ascii_lib ?os gpu_cmd = Inr gpu_report_hot"
    by code_simp
  have p: "parse_csv gpu_report_hot = [?r1, ?r2, ?r3]"
    by code_simp
  have h2a: "parse_csv gpu_report_hot = [] @ ?r1 # [?r2, ?r3]"
    and h2b: "parse_csv gpu_report_hot = [?r1] @ ?r2 # [?r3]"
    and h2c: "parse_csv gpu_report_hot = [?r1, ?r2] @ ?r3 # []"
    using p by simp_all
  have i1: "py_int ''0'' = Some 0" "py_int ''45'' = Some 45" "py_int ''80'' = Some 80"
    "py_int ''1024'' = Some 1024" "py_int ''40960'' = Some 40960"
    "py_int ''1'' = Some 1" "py_int ''40'' = Some 40" "py_int ''16384'' = Some 16384"
    "py_int ''hot'' = None"
    by code_simp+
  have f1: "unless_na decimal_float ''72.50'' = Some (Some (145 / 2))"
    "unless_na decimal_float ''250.00'' = Some (Some 250)"
    "unless_na py_int ''1410'' = Some (Some 1410)"
    "unless_na py_int ''30'' = Some (Some 30)"
    "unless_na decimal_float ''N/A'' = Some None"
    "unless_na py_int ''N/A'' = Some None"
    by code_simp+
  have g1: "gpu_of_row ascii_lib ?r1 = Some (gpu_a100\<lparr>g_fan := Some 30\<rparr>)"
    using readDevices_rows[OF h1 h2a, where u = "''GPU-1''" and i = "''0''"
            and n = "''NVIDIA A100''" and t = "''45''" and ut = "''80''" and mu = "''1024''"
            and mt = "''40960''" and pw = "''72.50''" and pl = "''250.00''" and sc = "''1410''"
            and rest = "[''30'']" and iv = 0 and tv = 45 and utv = 80 and muv = 1024
            and mtv = 40960 and pwv = "Some (145 / 2)" and plv = "Some 250"
            and scv = "Some 1410" and fv = "Some 30"] i1 f1
    by (simp add: ascii_lib_def gpu_a100_def)
  have g2: "gpu_of_row ascii_lib ?r2 = None"
    using readDevices_rows[OF h1 h2b] i1 by simp
  have g3: "gpu_of_row ascii_lib ?r3 = Some gpu_t4"
    using readDevices_rows[OF h1 h2c, where u = "''GPU-2''" and i = "''1''"
            and n = "''Tesla T4''" and t = "''40''" and ut = "''0''" and mu = "''0''"
            and mt = "''16384''" and pw = "''N/A''" and pl = "''N/A''" and sc = "''N/A''"
            and rest = "[]" and iv = 1 and tv = 40 and utv = 0 and muv = 0
            and mtv = 16384 and pwv = None and plv = None
            and scv = None and fv = None] i1 f1
    by (simp add: ascii_lib_def gpu_t4_def)
  have g4: "g_fan gpu_t4 = None"
    using readDevices_rows[OF h1 h2c, where g = gpu_t4] g3 by simp
  have "get_gpu_stats ascii_lib ?os = Inr [gpu_a100\<lparr>g_fan := Some 30\<rparr>, gpu_t4]"
    using readDevices_rows[OF h1 h2b] g1 g2 g3 by simp
  with g2 g4 show ?thesis
    by simp
qed

text \<open>
  C7, as amended. \<open>run_cmd\<close> returns the empty string when the binary does not exist
  and the decoded merged output when the command completes, whatever its exit status.
  It raises exactly when the command line cannot be split into words (an unclosed
  quotation, a trailing escape) or when starting the process raises an exception other
  than FileNotFoundError.
\<close>

theorem run_cmd_outcomes:
  "(shlex_split cmd = Inr argv \<and> os argv = FileNotFoundError \<longrightarrow> run_cmd L os cmd = Inr []) \<and>
   (shlex_split cmd = Inr argv \<and> os argv = CalledProcessError out \<longrightarrow>
      run_cmd L os cmd = Inr (decode_ignore L out)) \<and>
   (shlex_split cmd = Inr argv \<and> os argv = Returned out \<longrightarrow>
      run_cmd L os cmd = Inr (decode_ignore L out)) \<and>
   ((\<exists>e. run_cmd L os cmd = Inl e) \<longleftrightarrow>
      (\<exists>e. shlex_split cmd = Inl e) \<or>
      (\<exists>argv x. shlex_split cmd = Inr argv \<and> os argv = Raised x))"
  by (auto simp: run_cmd_def split: sum.splits proc_outcome.splits)

theorem run_cmd_outcomes_witness:
  "run_cmd ascii_lib os_absent pmon_cmd = Inr [] \<and>
   run_cmd ascii_lib (os_failing ''Failed to initialize NVML'') pmon_cmd
     = Inr ''Failed to initialize NVML'' \<and>
   run_cmd ascii_lib (tool gpu_report proc_report pmon_report) pmon_cmd = Inr pmon_report \<and>
   (\<exists>e. run_cmd ascii_lib os_denied pmon_cmd = Inl e)"
proof -
  let ?argv = "[''nvidia-smi'', ''pmon'', ''-c'', ''1'', ''-s'', ''um'']"
  have t: "tool gpu_report proc_report pmon_report ?argv = Returned pmon_report"
    by (simp add: tool_def shlex_gpu_cmd shlex_proc_cmd shlex_pmon_cmd)
  show ?thesis
    using run_cmd_outcomes[where cmd = pmon_cmd and argv = ?argv and os = os_absent
            and L = ascii_lib]
          run_cmd_outcomes[where cmd = pmon_cmd and argv = ?argv
            and os = "os_failing ''Failed to initialize NVML''"
            and out = "''Failed to initialize NVML''" and L = ascii_lib]
          run_cmd_outcomes[where cmd = pmon_cmd and argv = ?argv
            and os = "tool gpu_report proc_report pmon_report"
            and out = pmon_report and L = ascii_lib]
          run_cmd_outcomes[where cmd = pmon_cmd and os = os_denied and L = ascii_lib]
          t
    by (simp add: shlex_pmon_cmd os_absent_def os_failing_def os_denied_def ascii_lib_def)
qed

text \<open>
  C7 as stated fails: a command line with an unclosed quotation raises ValueError from
  the word splitting, and a launch that raises PermissionError is not caught.
\<close>

theorem run_cmd_raises_counterexample:
  "run_cmd ascii_lib os_absent (''nvidia-smi pmon -c 1 -s '' @ [CHR 0x27] @ ''um'')
     = Inl (ValueError ''No closing quotation'') \<and>
   run_cmd ascii_lib os_denied pmon_cmd = Inl (Uncaught ''PermissionError'')"
  by code_simp

text \<open>
  C8. \<open>snapshot\<close> depends on the outside world only through the three tool outputs: two
  calls for which the device query, the process query and the monitoring sample give
  the same results return the same snapshot (or raise the same exception).
\<close>

theorem snapshot_deterministic:
  assumes "run_cmd L os1 gpu_cmd = run_cmd L os2 gpu_cmd"
    and "run_cmd L os1 proc_cmd = run_cmd L os2 proc_cmd"
    and "run_cmd L os1 pmon_cmd = run_cmd L os2 pmon_cmd"
  shows "snapshot L os1 = snapshot L os2"
proof -
  have g: "get_gpu_stats L os1 = get_gpu_stats L os2"
    using assms(1) by (simp add: get_gpu_stats_def)
  have p: "get_compute_processes L os1 = get_compute_processes L os2"
    using assms(2) by (simp add: get_compute_processes_def)
  have m: "get_pmon_once L os1 = get_pmon_once L os2"
    using assms(3) by (simp add: get_pmon_once_def)
  show ?thesis
    unfolding snapshot_def g p m by (rule refl)
qed

theorem snapshot_deterministic_witness:
  "fx_os [''nvidia-smi'', ''-L''] \<noteq> fx_os_later [''nvidia-smi'', ''-L''] \<and>
   snapshot ascii_lib fx_os = snapshot ascii_lib fx_os_later \<and>
   snapshot ascii_lib fx_os_later = Inr ([gpu_a100, gpu_t4],
     [(0, [proc_python\<lparr>p_sm := Some 80, p_mem_util := Some 40\<rparr>, proc_app]), (1, [])])"
proof -
  have h1: "run_cmd ascii_lib fx_os gpu_cmd = run_cmd ascii_lib fx_os_later gpu_cmd"
    by code_simp
  have h2: "run_cmd ascii_lib fx_os proc_cmd = run_cmd ascii_lib fx_os_later proc_cmd"
    by code_simp
  have h3: "run_cmd ascii_lib fx_os pmon_cmd = run_cmd ascii_lib fx_os_later pmon_cmd"
    by code_simp
  have d: "fx_os [''nvidia-smi'', ''-L''] \<noteq> fx_os_later [''nvidia-smi'', ''-L'']"
    by code_simp
  from snapshot_deterministic[OF h1 h2 h3] fx_snapshot d show ?thesis
    by simp
qed

text \<open>
  C9. A process record whose device uuid is not a key of the uuid-to-index mapping is
  left as it was read by the reconciler, with both utilization fields null: its join
  key has a null device index, and the lookup has no entry under such a key.
\<close>

theorem unknown_uuid_stays_null:
  assumes "get_compute_processes L os = Inr procs" and "i < length procs"
    and "uuid_index_map gpus (p_uuid (procs ! i)) = None"
  shows "enrich_procs_with_pmon procs pmon (uuid_index_map gpus) ! i = procs ! i \<and>
         p_sm (enrich_procs_with_pmon procs pmon (uuid_index_map gpus) ! i) = None \<and>
         p_mem_util (enrich_procs_with_pmon procs pmon (uuid_index_map gpus) ! i) = None \<and>
         pmon_index pmon (None, Some (p_pid (procs ! i))) = None"
proof -
  from assms(1) obtain out where "procs = procs_loop (parse_csv out)"
    by (auto simp: get_compute_processes_def split: sum.splits)
  moreover have "procs ! i \<in> set procs"
    using assms(2) by simp
  ultimately have "procs ! i \<in> set (procs_loop (parse_csv out))"
    by simp
  then have unset: "p_sm (procs ! i) = None \<and> p_mem_util (procs ! i) = None"
    by (rule procs_loop_unset)
  have "enrich_procs_with_pmon procs pmon (uuid_index_map gpus) ! i = procs ! i"
    using assms(2,3)
    by (simp add: enrich_procs_with_pmon_def enrich_proc_def Let_def pmon_index_no_device)
  with unset show ?thesis
    by (simp add: pmon_index_no_device)
qed

theorem unknown_uuid_stays_null_witness:
  "get_compute_processes ascii_lib fx_os = Inr [proc_python, proc_app, proc_lost] \<and>
   uuid_index_map [gpu_a100, gpu_t4] (p_uuid proc_lost) = None \<and>
   enrich_procs_with_pmon [proc_python, proc_app, proc_lost] [sample_python, sample_idle]
     (uuid_index_map [gpu_a100, gpu_t4]) ! 2 = proc_lost \<and>
   p_sm (enrich_procs_with_pmon [proc_python, proc_app, proc_lost] [sample_python, sample_idle]
     (uuid_index_map [gpu_a100, gpu_t4]) ! 2) = None"
proof -
  have u: "uuid_index_map [gpu_a100, gpu_t4] (p_uuid ([proc_python, proc_app, proc_lost] ! 2)) = None"
    by (simp add: uuid_index_map_def gpu_a100_def gpu_t4_def proc_lost_def)
  have l: "2 < length [proc_python, proc_app, proc_lost]" by simp
  show ?thesis
    using unknown_uuid_stays_null[OF fx_procs l u, of "[sample_python, sample_idle]"] fx_procs u
    by (simp add: proc_lost_def)
qed

text \<open>
  C10. A monitoring row of at least nine fields whose device index, pid, \<open>sm\<close> or \<open>mem\<close>
  field is neither the sentinel nor an integer literal contributes nothing to the
  sampler's output, and the rows before and after it contribute what they contribute
  on their own.
\<close>

theorem malformed_pmon_row_dropped:
  assumes "run_cmd L os pmon_cmd = Inr out" and "splitlines out = before @ line # after"
    and "parts = split_ws (strip line)" and "length parts \<ge> 9"
    and "(parts ! 0 \<noteq> ''-'' \<and> py_int (parts ! 0) = None) \<or>
         (parts ! 1 \<noteq> ''-'' \<and> py_int (parts ! 1) = None) \<or>
         (parts ! 3 \<noteq> ''-'' \<and> py_int (parts ! 3) = None) \<or>
         (parts ! 4 \<noteq> ''-'' \<and> py_int (parts ! 4) = None)"
  shows "get_pmon_once L os = Inr (pmon_loop before @ pmon_loop after)"
proof -
  have "parts \<noteq> []"
    using assms(4) by auto
  then have "pmon_of_parts parts = None"
    using assms(4,5)
    by (auto simp: pmon_of_parts_def item_def unless_dash_def split: Option.bind_splits)
  then have "pmon_loop [line] = []"
    using assms(3) by (simp add: Let_def)
  then have "pmon_loop (before @ line # after) = pmon_loop before @ pmon_loop after"
    using pmon_loop_append[of before "[line] @ after"] pmon_loop_append[of "[line]" after]
    by simp
  then show ?thesis
    using assms(1,2) by (simp add: get_pmon_once_def)
qed

theorem malformed_pmon_row_dropped_witness:
  "get_pmon_once ascii_lib (tool gpu_report proc_report pmon_report_bad)
     = Inr (pmon_loop (splitlines pmon_header @
              [''    0        100     C    80    40     -     -   512   python3''])
            @ pmon_loop [''    0        200     C     5     7     -     -   256   app'']) \<and>
   get_pmon_once ascii_lib (tool gpu_report proc_report pmon_report_bad)
     = Inr [sample_python, sample_app]"
proof -
  let ?os = "tool gpu_report proc_report pmon_report_bad"
  let ?line = "''    0        1x0     C    11    22     -     -   128   broken''"
  let ?parts = "[''0'', ''1x0'', ''C'', ''11'', ''22'', ''-'', ''-'', ''128'', ''broken'']"
  let ?before = "splitlines pmon_header @
        [''    0        100     C    80    40     -     -   512   python3'']"
  let ?after = "[''    0        200     C     5     7     -     -   256   app'']"
  have h1: "run_cmd ascii_lib ?os pmon_cmd = Inr pmon_report_bad"
    by code_simp
  have h2: "splitlines pmon_report_bad = ?before @ ?line # ?after"
    by code_simp
  have h3: "?parts = split_ws (strip ?line)"
    by code_simp
  have h4: "length ?parts \<ge> 9"
    by simp
  have "?parts ! 1 \<noteq> ''-'' \<and> py_int (?parts ! 1) = None"
    by code_simp
  then have h5: "(?parts ! 0 \<noteq> ''-'' \<and> py_int (?parts ! 0) = None) \<or>
         (?parts ! 1 \<noteq> ''-'' \<and> py_int (?parts ! 1) = None) \<or>
         (?parts ! 3 \<noteq> ''-'' \<and> py_int (?parts ! 3) = None) \<or>
         (?parts ! 4 \<noteq> ''-'' \<and> py_int (?parts ! 4) = None)"
    by blast
  note c = malformed_pmon_row_dropped[OF h1 h2 h3 h4 h5]
  have "pmon_loop ?before @ pmon_loop ?after = [sample_python, sample_app]"
    by code_simp
  with c show ?thesis
    by simp
qed

end
